theory Spec2Isabelle
  imports Main
begin

section \<open>Values that cross the HTTP boundary\<close>

text \<open>
  The handlers of \<^verbatim>\<open>Basic/app.py\<close> return Python dicts that the framework renders as
  JSON, and \<^verbatim>\<open>create_item\<close> receives a JSON body. One datatype stands for both: a
  Python value that JSON can carry. \<open>JNull\<close> is Python's \<^verbatim>\<open>None\<close>. An object keeps
  its pairs in order, as a dict literal and a JSON text do. Numbers are integers only;
  no statement below turns on a fraction.
\<close>

datatype json =
    JNull
  | JBool bool
  | JInt int
  | JString string
  | JArray "json list"
  | JObject "(string \<times> json) list"

text \<open>
  Looking a key up in a list of pairs the way a dict built from those pairs answers:
  the last binding of a key wins. The same rule reads a query string
  (\<^verbatim>\<open>?q=a&q=b\<close> gives \<^verbatim>\<open>b\<close>).
\<close>

definition dict_get :: "(string \<times> 'v) list \<Rightarrow> string \<Rightarrow> 'v option" where
  "dict_get kvs k = map_of (rev kvs) k"

section \<open>Requests, replies and validation errors\<close>

datatype http_method = GET | POST | PUT | DELETE | PATCH | HEAD | OPTIONS

record request =
  meth :: http_method
  path :: string
  query :: "(string \<times> string) list"
  headers :: "(string \<times> string) list"
  body :: "json option"

text \<open>
  A validation error names the place of the offending input (\<^verbatim>\<open>["query", "q"]\<close>) and
  what is wrong with it. A request whose inputs do not validate is answered with the
  list of all its errors and the handler is never called.
\<close>

datatype verror =
    Missing "string list"
  | WrongType "string list"
  | TooShort "string list"

text \<open>
  The reply to a request: \<open>Ok v\<close> is the handler's return value sent as a 200 response,
  \<open>ValidationFailure es\<close> is the framework's refusal before any handler runs, and
  \<open>NoRoute\<close> stands for every request that none of the three decorated functions
  serves.
\<close>

datatype reply =
    Ok json
  | ValidationFailure "verror list"
  | NoRoute

text \<open>Two validated inputs together: the errors of both are reported, in order.\<close>

definition both :: "'e list + 'a \<Rightarrow> 'e list + 'b \<Rightarrow> 'e list + ('a \<times> 'b)" where
  "both a b =
     (case a of
        Inl ea \<Rightarrow> (case b of Inl eb \<Rightarrow> Inl (ea @ eb) | Inr _ \<Rightarrow> Inl ea)
      | Inr x \<Rightarrow> (case b of Inl eb \<Rightarrow> Inl eb | Inr y \<Rightarrow> Inr (x, y)))"

section \<open>Component A: the items service (\<^verbatim>\<open>Basic/app.py\<close>)\<close>

subsection \<open>\<^verbatim>\<open>read_root\<close>\<close>

text \<open>
  \<^verbatim>\<open>
  @app.get("/")
  def read_root():
      return {"Hello": "World"}
  \<close>
\<close>

definition read_root :: json where
  "read_root = JObject [(''Hello'', JString ''World'')]"

subsection \<open>\<^verbatim>\<open>read_item\<close>\<close>

text \<open>
  \<^verbatim>\<open>
  @app.get("/items/{item_id}")
  def read_item(item_id: int, q: str = Query(None, min_length=3)):
      return {"item_id": item_id, "q": q}
  \<close>
  The body is the dict literal; \<^verbatim>\<open>q\<close> is either \<^verbatim>\<open>None\<close> or a string.
\<close>

definition read_item :: "int \<Rightarrow> string option \<Rightarrow> json" where
  "read_item item_id q =
     JObject [(''item_id'', JInt item_id),
              (''q'', (case q of None \<Rightarrow> JNull | Some s \<Rightarrow> JString s))]"

text \<open>
  The path pattern \<^verbatim>\<open>/items/{item_id}\<close>: the path is \<^verbatim>\<open>/items/\<close> followed by one
  segment, which is not empty and holds no slash.
\<close>

definition path_item_id :: "string \<Rightarrow> string option" where
  "path_item_id p =
     (if take 7 p = ''/items/'' \<and> drop 7 p \<noteq> [] \<and> CHR ''/'' \<notin> set (drop 7 p)
      then Some (drop 7 p) else None)"

text \<open>
  The annotation \<^verbatim>\<open>item_id: int\<close>: the segment is text, and the framework turns it
  into an integer or reports the segment. How text is read as an integer is the
  framework's business and not written in this repository, so the reader is a
  parameter \<open>to_int\<close> of the model.
\<close>

definition item_id_param :: "(string \<Rightarrow> int option) \<Rightarrow> string \<Rightarrow> verror list + int" where
  "item_id_param to_int seg =
     (case to_int seg of
        None \<Rightarrow> Inl [WrongType [''path'', ''item_id'']]
      | Some n \<Rightarrow> Inr n)"

text \<open>
  The declaration \<^verbatim>\<open>q: str = Query(None, min_length=3)\<close>: when the query string has
  no \<^verbatim>\<open>q\<close> the default \<^verbatim>\<open>None\<close> is passed on; a \<^verbatim>\<open>q\<close> that is there must have at
  least three characters.
\<close>

definition q_param :: "(string \<times> string) list \<Rightarrow> verror list + string option" where
  "q_param qs =
     (case dict_get qs ''q'' of
        None \<Rightarrow> Inr None
      | Some s \<Rightarrow> if length s < 3 then Inl [TooShort [''query'', ''q'']] else Inr (Some s))"

subsection \<open>\<^verbatim>\<open>Item\<close> and \<^verbatim>\<open>create_item\<close>\<close>

text \<open>
  \<^verbatim>\<open>
  class Item(BaseModel):
      name: str
      description: str

  @app.post("/items/")
  def create_item(item: Item = Body(...)):
      return {"name": item.name, "description": item.description}
  \<close>
\<close>

record Item =
  name :: string
  description :: string

definition create_item :: "Item \<Rightarrow> json" where
  "create_item item =
     JObject [(''name'', JString (name item)), (''description'', JString (description item))]"

text \<open>
  A field annotated \<^verbatim>\<open>str\<close>: a value that is a string is taken as it is. What becomes
  of a value of another JSON type is decided by the validation library, which is not
  part of this repository and whose releases differ here (one refuses such a value,
  another turns a number into its text). That decision is a parameter \<open>str_of\<close> of the
  model: \<open>str_of v\<close> is the string the library makes of a non-string \<open>v\<close>, or \<open>None\<close>
  when it refuses \<open>v\<close>.
\<close>

definition field_str :: "(json \<Rightarrow> string option) \<Rightarrow> json \<Rightarrow> string option" where
  "field_str str_of v = (case v of JString s \<Rightarrow> Some s | _ \<Rightarrow> str_of v)"

text \<open>A field with no default: the key must be there and its value must pass as a string.\<close>

definition str_field ::
    "(json \<Rightarrow> string option) \<Rightarrow> (string \<times> json) list \<Rightarrow> string \<Rightarrow> verror list + string" where
  "str_field str_of obj k =
     (case dict_get obj k of
        None \<Rightarrow> Inl [Missing [''body'', k]]
      | Some v \<Rightarrow>
          (case field_str str_of v of
             None \<Rightarrow> Inl [WrongType [''body'', k]]
           | Some s \<Rightarrow> Inr s))"

text \<open>
  The declaration \<^verbatim>\<open>item: Item = Body(...)\<close>: the body is required and is itself the
  item. The two declared fields are read from the object, in the order of the class,
  and the errors of both are reported. The class sets no configuration, so nothing
  else of the object is looked at. \<open>None\<close> is a request without a JSON body.
\<close>

definition Item_of_body :: "(json \<Rightarrow> string option) \<Rightarrow> json option \<Rightarrow> verror list + Item" where
  "Item_of_body str_of b =
     (case b of
        None \<Rightarrow> Inl [Missing [''body'']]
      | Some v \<Rightarrow>
          (case v of
             JObject obj \<Rightarrow>
               (case both (str_field str_of obj ''name'') (str_field str_of obj ''description'') of
                  Inl es \<Rightarrow> Inl es
                | Inr nd \<Rightarrow> Inr \<lparr>name = fst nd, description = snd nd\<rparr>)
           | _ \<Rightarrow> Inl [WrongType [''body'']]))"

subsection \<open>The application: three routes\<close>

text \<open>
  The decorators register the routes in the order of the file. A request is served by
  the first route whose method and path pattern fit; its declared inputs are validated
  and only then the function is called. Each route is a partial function on requests:
  \<open>None\<close> when the route does not fit.
\<close>

definition route_read_root :: "request \<Rightarrow> reply option" where
  "route_read_root req =
     (if meth req = GET \<and> path req = ''/'' then Some (Ok read_root) else None)"

definition route_read_item :: "(string \<Rightarrow> int option) \<Rightarrow> request \<Rightarrow> reply option" where
  "route_read_item to_int req =
     (if meth req = GET then
        (case path_item_id (path req) of
           None \<Rightarrow> None
         | Some seg \<Rightarrow>
             Some (case both (item_id_param to_int seg) (q_param (query req)) of
                     Inl es \<Rightarrow> ValidationFailure es
                   | Inr nq \<Rightarrow> Ok (read_item (fst nq) (snd nq))))
      else None)"

definition route_create_item :: "(json \<Rightarrow> string option) \<Rightarrow> request \<Rightarrow> reply option" where
  "route_create_item str_of req =
     (if meth req = POST \<and> path req = ''/items/'' then
        Some (case Item_of_body str_of (body req) of
                Inl es \<Rightarrow> ValidationFailure es
              | Inr item \<Rightarrow> Ok (create_item item))
      else None)"

definition app ::
    "(string \<Rightarrow> int option) \<Rightarrow> (json \<Rightarrow> string option) \<Rightarrow> request \<Rightarrow> reply" where
  "app to_int str_of req =
     (case route_read_root req of
        Some r \<Rightarrow> r
      | None \<Rightarrow>
          (case route_read_item to_int req of
             Some r \<Rightarrow> r
           | None \<Rightarrow>
               (case route_create_item str_of req of
                  Some r \<Rightarrow> r
                | None \<Rightarrow> NoRoute)))"

subsection \<open>A reader of decimal text\<close>

text \<open>
  One reader to run the model with: an optional sign and then one or more decimal
  digits, the common core of what integer parsers accept.
\<close>

definition is_digit :: "char \<Rightarrow> bool" where
  "is_digit c = (48 \<le> (of_char c :: nat) \<and> (of_char c :: nat) \<le> 57)"

primrec digits_value :: "nat \<Rightarrow> string \<Rightarrow> nat option" where
  "digits_value acc [] = Some acc"
| "digits_value acc (c # cs) =
     (if is_digit c then digits_value (10 * acc + (of_char c - 48)) cs else None)"

definition decimal_int :: "string \<Rightarrow> int option" where
  "decimal_int s =
     (case s of
        [] \<Rightarrow> None
      | c # cs \<Rightarrow>
          if c = CHR ''-'' then
            (if cs = [] then None else map_option (\<lambda>v. - int v) (digits_value 0 cs))
          else if c = CHR ''+'' then
            (if cs = [] then None else map_option int (digits_value 0 cs))
          else map_option int (digits_value 0 s))"


text \<open>
  The decimal text of an integer, as \<^verbatim>\<open>str(n)\<close> writes it and as a client puts it into
  the URL \<^verbatim>\<open>/items/{n}\<close>.
\<close>

definition digit_char :: "nat \<Rightarrow> char" where
  "digit_char d = char_of (48 + d)"

function nat_digits :: "nat \<Rightarrow> string" where
  "nat_digits n =
     (if n < 10 then [digit_char n] else nat_digits (n div 10) @ [digit_char (n mod 10)])"
  by pat_completeness auto
termination
  by (relation "measure id") auto

declare nat_digits.simps [simp del]

definition str_int :: "int \<Rightarrow> string" where
  "str_int n = (if n < 0 then CHR ''-'' # nat_digits (nat (- n)) else nat_digits (nat n))"

text \<open>
  Two libraries to run the model with: one that refuses every non-string in a
  \<^verbatim>\<open>str\<close> field, and one that turns a number into its decimal text and a boolean
  into \<^verbatim>\<open>True\<close> or \<^verbatim>\<open>False\<close>, as \<^verbatim>\<open>str\<close> applied to the value does.
\<close>

definition no_conversion :: "json \<Rightarrow> string option" where
  "no_conversion v = None"

definition scalar_text :: "json \<Rightarrow> string option" where
  "scalar_text v =
     (case v of
        JInt n \<Rightarrow> Some (str_int n)
      | JBool b \<Rightarrow> Some (if b then ''True'' else ''False'')
      | _ \<Rightarrow> None)"

section \<open>The Python text of the two files and how it runs\<close>

text \<open>
  What a function does to the process besides returning a value, and what a module
  does when it is loaded, cannot be read off a value. For that the statements of the
  two files are kept as syntax and run by an interpreter of the part of Python they
  are written in. The interpreter threads the state of the process: the module's
  global names, and the list of calls made to code outside the two files.
\<close>

subsection \<open>Values\<close>

text \<open>
  A reference stands for something defined outside the two files: a name imported
  from a module, the value returned by the \<open>i\<close>-th outside call of the run
  (\<open>Result i\<close>, counting from 0), or an attribute of a reference.
\<close>

datatype ref =
    Imported string string
  | Result nat
  | Member ref string

text \<open>
  Python values: the ones JSON carries, an object with attributes (an \<^verbatim>\<open>Item\<close>), and
  references.
\<close>

datatype pyval =
    VNone
  | VBool bool
  | VInt int
  | VStr string
  | VList "pyval list"
  | VDict "(string \<times> pyval) list"
  | VObject "(string \<times> pyval) list"
  | VRef ref

primrec py_of_json :: "json \<Rightarrow> pyval" where
  "py_of_json JNull = VNone"
| "py_of_json (JBool b) = VBool b"
| "py_of_json (JInt n) = VInt n"
| "py_of_json (JString s) = VStr s"
| "py_of_json (JArray xs) = VList (map py_of_json xs)"
| "py_of_json (JObject kvs) = VDict (map (map_prod id py_of_json) kvs)"

datatype pyerr = NameError string | AttributeError string | TypeError

subsection \<open>Syntax\<close>

text \<open>
  Expressions: a string literal, a name, an attribute \<^verbatim>\<open>e.a\<close>, a dict display with
  literal keys, and a call with positional and keyword arguments. Statements:
  \<^verbatim>\<open>return e\<close>, \<^verbatim>\<open>x = e\<close>, \<^verbatim>\<open>x = e\<close> under \<^verbatim>\<open>global x\<close>, an expression on its own, and
  \<^verbatim>\<open>from m import a, b\<close>.
\<close>

datatype expr =
    Str string
  | Name string
  | Attr expr string
  | DictDisplay "(string \<times> expr) list"
  | Call expr "expr list" "(string \<times> expr) list"

datatype stmt =
    Return expr
  | Assign string expr
  | AssignGlobal string expr
  | ExprS expr
  | ImportFrom string "string list"

subsection \<open>State and evaluation\<close>

text \<open>A call to outside code: what was called, with which arguments.\<close>

datatype event = Called ref "pyval list" "(string \<times> pyval) list"

record pystate =
  globals :: "string \<rightharpoonup> pyval"
  calls :: "event list"

text \<open>
  Reading an attribute: an object has the attributes it was given; an attribute of a
  reference is a reference again; nothing else has attributes here.
\<close>

definition get_attr :: "pyval \<Rightarrow> string \<Rightarrow> pyerr + pyval" where
  "get_attr v a =
     (case v of
        VObject fs \<Rightarrow> (case dict_get fs a of None \<Rightarrow> Inl (AttributeError a) | Some x \<Rightarrow> Inr x)
      | VRef r \<Rightarrow> Inr (VRef (Member r a))
      | _ \<Rightarrow> Inl (AttributeError a))"

text \<open>
  Calling a value: only a reference can be called here. The call is appended to the
  list of outside calls, and what it returns is known only as the result of that call.
\<close>

definition call_value ::
    "pyval \<Rightarrow> pyval list \<Rightarrow> (string \<times> pyval) list \<Rightarrow> pystate \<Rightarrow> (pyerr + pyval) \<times> pystate" where
  "call_value f avs kvs st =
     (case f of
        VRef r \<Rightarrow> (Inr (VRef (Result (length (calls st)))),
                   st\<lparr>calls := calls st @ [Called r avs kvs]\<rparr>)
      | _ \<Rightarrow> (Inl TypeError, st))"

text \<open>
  Expressions are evaluated left to right; a name is looked up among the locals first
  and among the globals next; the first error ends the evaluation.
\<close>

fun eval :: "expr \<Rightarrow> (string \<rightharpoonup> pyval) \<Rightarrow> pystate \<Rightarrow> (pyerr + pyval) \<times> pystate"
  and eval_list ::
    "expr list \<Rightarrow> (string \<rightharpoonup> pyval) \<Rightarrow> pystate \<Rightarrow> (pyerr + pyval list) \<times> pystate"
  and eval_items ::
    "(string \<times> expr) list \<Rightarrow> (string \<rightharpoonup> pyval) \<Rightarrow> pystate
       \<Rightarrow> (pyerr + (string \<times> pyval) list) \<times> pystate"
  where
  "eval (Str s) l st = (Inr (VStr s), st)"
| "eval (Name x) l st =
     (case l x of
        Some v \<Rightarrow> (Inr v, st)
      | None \<Rightarrow>
          (case globals st x of
             Some v \<Rightarrow> (Inr v, st)
           | None \<Rightarrow> (Inl (NameError x), st)))"
| "eval (Attr e a) l st =
     (case eval e l st of
        (Inl err, st') \<Rightarrow> (Inl err, st')
      | (Inr v, st') \<Rightarrow> (get_attr v a, st'))"
| "eval (DictDisplay items) l st =
     (case eval_items items l st of
        (Inl err, st') \<Rightarrow> (Inl err, st')
      | (Inr kvs, st') \<Rightarrow> (Inr (VDict kvs), st'))"
| "eval (Call f as ks) l st =
     (case eval f l st of
        (Inl err, st1) \<Rightarrow> (Inl err, st1)
      | (Inr fv, st1) \<Rightarrow>
          (case eval_list as l st1 of
             (Inl err, st2) \<Rightarrow> (Inl err, st2)
           | (Inr avs, st2) \<Rightarrow>
               (case eval_items ks l st2 of
                  (Inl err, st3) \<Rightarrow> (Inl err, st3)
                | (Inr kvs, st3) \<Rightarrow> call_value fv avs kvs st3)))"
| "eval_list [] l st = (Inr [], st)"
| "eval_list (e # es) l st =
     (case eval e l st of
        (Inl err, st1) \<Rightarrow> (Inl err, st1)
      | (Inr v, st1) \<Rightarrow>
          (case eval_list es l st1 of
             (Inl err, st2) \<Rightarrow> (Inl err, st2)
           | (Inr vs, st2) \<Rightarrow> (Inr (v # vs), st2)))"
| "eval_items [] l st = (Inr [], st)"
| "eval_items (ke # kes) l st =
     (case eval (snd ke) l st of
        (Inl err, st1) \<Rightarrow> (Inl err, st1)
      | (Inr v, st1) \<Rightarrow>
          (case eval_items kes l st1 of
             (Inl err, st2) \<Rightarrow> (Inl err, st2)
           | (Inr kvs, st2) \<Rightarrow> (Inr ((fst ke, v) # kvs), st2)))"

subsection \<open>Statements, functions and modules\<close>

datatype outcome = Next | Returned pyval | Raised pyerr

text \<open>
  The scope of a statement is \<open>None\<close> at the top of a module, where names are the
  globals, and \<open>Some l\<close> inside a function with locals \<open>l\<close>.
\<close>

definition locals_of :: "(string \<rightharpoonup> pyval) option \<Rightarrow> (string \<rightharpoonup> pyval)" where
  "locals_of sc = (case sc of None \<Rightarrow> Map.empty | Some l \<Rightarrow> l)"

definition bind_name ::
    "string \<Rightarrow> pyval \<Rightarrow> (string \<rightharpoonup> pyval) option \<Rightarrow> pystate
       \<Rightarrow> (string \<rightharpoonup> pyval) option \<times> pystate" where
  "bind_name x v sc st =
     (case sc of
        None \<Rightarrow> (None, st\<lparr>globals := (globals st)(x \<mapsto> v)\<rparr>)
      | Some l \<Rightarrow> (Some (l(x \<mapsto> v)), st))"

primrec bind_imports ::
    "string \<Rightarrow> string list \<Rightarrow> (string \<rightharpoonup> pyval) option \<Rightarrow> pystate
       \<Rightarrow> (string \<rightharpoonup> pyval) option \<times> pystate" where
  "bind_imports m [] sc st = (sc, st)"
| "bind_imports m (n # ns) sc st =
     (case bind_name n (VRef (Imported m n)) sc st of
        (sc', st') \<Rightarrow> bind_imports m ns sc' st')"

fun exec ::
    "stmt \<Rightarrow> (string \<rightharpoonup> pyval) option \<Rightarrow> pystate
       \<Rightarrow> outcome \<times> (string \<rightharpoonup> pyval) option \<times> pystate" where
  "exec (Return e) sc st =
     (case eval e (locals_of sc) st of
        (Inl err, st') \<Rightarrow> (Raised err, sc, st')
      | (Inr v, st') \<Rightarrow> (Returned v, sc, st'))"
| "exec (Assign x e) sc st =
     (case eval e (locals_of sc) st of
        (Inl err, st') \<Rightarrow> (Raised err, sc, st')
      | (Inr v, st') \<Rightarrow> (case bind_name x v sc st' of (sc', st'') \<Rightarrow> (Next, sc', st'')))"
| "exec (AssignGlobal x e) sc st =
     (case eval e (locals_of sc) st of
        (Inl err, st') \<Rightarrow> (Raised err, sc, st')
      | (Inr v, st') \<Rightarrow> (Next, sc, st'\<lparr>globals := (globals st')(x \<mapsto> v)\<rparr>))"
| "exec (ExprS e) sc st =
     (case eval e (locals_of sc) st of
        (Inl err, st') \<Rightarrow> (Raised err, sc, st')
      | (Inr v, st') \<Rightarrow> (Next, sc, st'))"
| "exec (ImportFrom m ns) sc st =
     (case bind_imports m ns sc st of (sc', st') \<Rightarrow> (Next, sc', st'))"

text \<open>A block runs its statements in order and stops at the first return or error.\<close>

fun exec_block ::
    "stmt list \<Rightarrow> (string \<rightharpoonup> pyval) option \<Rightarrow> pystate
       \<Rightarrow> outcome \<times> (string \<rightharpoonup> pyval) option \<times> pystate" where
  "exec_block [] sc st = (Next, sc, st)"
| "exec_block (s # ss) sc st =
     (case exec s sc st of
        (Next, sc', st') \<Rightarrow> exec_block ss sc' st'
      | (Returned v, sc', st') \<Rightarrow> (Returned v, sc', st')
      | (Raised err, sc', st') \<Rightarrow> (Raised err, sc', st'))"

text \<open>
  A function is its parameter names and its body. A call with the wrong number of
  arguments is a \<^verbatim>\<open>TypeError\<close> before the body runs; otherwise the body runs with the
  parameters bound to the arguments, and a body that ends without \<^verbatim>\<open>return\<close> gives
  \<^verbatim>\<open>None\<close>.
\<close>

record pyfun =
  fn_params :: "string list"
  fn_body :: "stmt list"

definition call_fun :: "pyfun \<Rightarrow> pyval list \<Rightarrow> pystate \<Rightarrow> (pyerr + pyval) \<times> pystate" where
  "call_fun f args st =
     (if length args = length (fn_params f) then
        (case exec_block (fn_body f) (Some (map_of (zip (fn_params f) args))) st of
           (Next, sc, st') \<Rightarrow> (Inr VNone, st')
         | (Returned v, sc, st') \<Rightarrow> (Inr v, st')
         | (Raised err, sc, st') \<Rightarrow> (Inl err, st'))
      else (Inl TypeError, st))"

text \<open>Loading a module runs its statements at the top scope from the empty state.\<close>

definition run_module :: "stmt list \<Rightarrow> outcome \<times> pystate" where
  "run_module prog =
     (case exec_block prog None \<lparr>globals = Map.empty, calls = []\<rparr> of
        (out, sc, st) \<Rightarrow> (out, st))"

subsection \<open>The three handlers of \<^verbatim>\<open>Basic/app.py\<close> as written\<close>

text \<open>
  The bodies, statement by statement; the docstrings and comments are no statements
  that run.
  \<^verbatim>\<open>
  def read_root():
      return {"Hello": "World"}

  def read_item(item_id, q):
      return {"item_id": item_id, "q": q}

  def create_item(item):
      return {"name": item.name, "description": item.description}
  \<close>
\<close>

definition read_root_py :: pyfun where
  "read_root_py =
     \<lparr>fn_params = [],
      fn_body = [Return (DictDisplay [(''Hello'', Str ''World'')])]\<rparr>"

definition read_item_py :: pyfun where
  "read_item_py =
     \<lparr>fn_params = [''item_id'', ''q''],
      fn_body = [Return (DictDisplay [(''item_id'', Name ''item_id''), (''q'', Name ''q'')])]\<rparr>"

definition create_item_py :: pyfun where
  "create_item_py =
     \<lparr>fn_params = [''item''],
      fn_body =
        [Return (DictDisplay [(''name'', Attr (Name ''item'') ''name''),
                              (''description'', Attr (Name ''item'') ''description'')])]\<rparr>"

text \<open>
  The arguments the framework calls the handlers with after validation: an integer,
  \<^verbatim>\<open>None\<close> or a string, and an \<^verbatim>\<open>Item\<close> object with its two attributes.
\<close>

definition opt_str :: "string option \<Rightarrow> pyval" where
  "opt_str q = (case q of None \<Rightarrow> VNone | Some s \<Rightarrow> VStr s)"

definition item_object :: "Item \<Rightarrow> pyval" where
  "item_object item =
     VObject [(''name'', VStr (name item)), (''description'', VStr (description item))]"

section \<open>Component B: the LMS application shell (\<^verbatim>\<open>FastAPIProject/main.py\<close>)\<close>

text \<open>
  The whole module, statement by statement:
  \<^verbatim>\<open>
  from typing import Optional, List
  from fastapi import FastAPI, Path, Query
  from pydantic import BaseModel

  from api import users, courses, sections

  app = FastAPI(
      title="Fast API LMS",
      description="LMS for managing students and courses.",
      version="0.0.1"
  )

  app.include_router(users.router)
  app.include_router(courses.router)
  app.include_router(sections.router)
  \<close>
  \<^verbatim>\<open>FastAPI\<close> and the three modules of \<^verbatim>\<open>api\<close> are not part of the sources at hand: they
  are references, and the calls made to them are recorded, not interpreted.
\<close>

definition main_py :: "stmt list" where
  "main_py =
     [ImportFrom ''typing'' [''Optional'', ''List''],
      ImportFrom ''fastapi'' [''FastAPI'', ''Path'', ''Query''],
      ImportFrom ''pydantic'' [''BaseModel''],
      ImportFrom ''api'' [''users'', ''courses'', ''sections''],
      Assign ''app''
        (Call (Name ''FastAPI'') []
           [(''title'', Str ''Fast API LMS''),
            (''description'', Str ''LMS for managing students and courses.''),
            (''version'', Str ''0.0.1'')]),
      ExprS (Call (Attr (Name ''app'') ''include_router'') [Attr (Name ''users'') ''router''] []),
      ExprS (Call (Attr (Name ''app'') ''include_router'') [Attr (Name ''courses'') ''router''] []),
      ExprS (Call (Attr (Name ''app'') ''include_router'') [Attr (Name ''sections'') ''router''] [])]"

section \<open>Decimal text is read back\<close>

lemma is_digit_digit_char: "d < 10 \<Longrightarrow> is_digit (digit_char d)"
  by (simp add: is_digit_def digit_char_def)

lemma of_char_digit_char: "d < 10 \<Longrightarrow> of_char (digit_char d) - 48 = d"
  by (simp add: digit_char_def)

lemma digits_value_append:
  "digits_value acc (xs @ ys) =
     (case digits_value acc xs of None \<Rightarrow> None | Some v \<Rightarrow> digits_value v ys)"
  by (induction xs arbitrary: acc) simp_all

lemma digits_value_nat_digits: "digits_value 0 (nat_digits n) = Some n"
proof (induction n rule: nat_digits.induct)
  case (1 n)
  show ?case
  proof (cases "n < 10")
    case True
    then show ?thesis
      by (simp add: nat_digits.simps [of n] is_digit_digit_char of_char_digit_char)
  next
    case False
    with 1 have "digits_value 0 (nat_digits (n div 10)) = Some (n div 10)"
      by simp
    with False show ?thesis
      by (simp add: nat_digits.simps [of n] digits_value_append is_digit_digit_char
          of_char_digit_char)
  qed
qed

lemma nat_digits_all_digits: "c \<in> set (nat_digits n) \<Longrightarrow> is_digit c"
proof (induction n rule: nat_digits.induct)
  case (1 n)
  then show ?case
    by (cases "n < 10") (auto simp: nat_digits.simps [of n] is_digit_digit_char)
qed

lemma nat_digits_not_Nil: "nat_digits n \<noteq> []"
  by (cases "n < 10") (simp_all add: nat_digits.simps [of n])

lemma not_digit: "\<not> is_digit CHR ''-''" "\<not> is_digit CHR ''+''" "\<not> is_digit CHR ''/''"
  by (simp_all add: is_digit_def)

lemma decimal_int_str_int: "decimal_int (str_int n) = Some n"
proof (cases "n < 0")
  case True
  then show ?thesis
    by (simp add: str_int_def decimal_int_def nat_digits_not_Nil digits_value_nat_digits)
next
  case False
  obtain c cs where s: "nat_digits (nat n) = c # cs"
    using nat_digits_not_Nil [of "nat n"] by (cases "nat_digits (nat n)") auto
  then have "is_digit c"
    using nat_digits_all_digits [of c "nat n"] by simp
  then have "c \<noteq> CHR ''-''" "c \<noteq> CHR ''+''"
    using not_digit by auto
  moreover have "digits_value 0 (c # cs) = Some (nat n)"
    using digits_value_nat_digits [of "nat n"] by (simp only: s)
  ultimately show ?thesis
    using False s by (simp add: str_int_def decimal_int_def del: digits_value.simps)
qed

lemma str_int_not_Nil: "str_int n \<noteq> []"
  by (simp add: str_int_def nat_digits_not_Nil)

lemma str_int_no_slash: "CHR ''/'' \<notin> set (str_int n)"
  using nat_digits_all_digits not_digit(3) by (auto simp: str_int_def)

section \<open>Which route serves a request\<close>

lemma path_item_id_items:
  "seg \<noteq> [] \<Longrightarrow> CHR ''/'' \<notin> set seg \<Longrightarrow> path_item_id (''/items/'' @ seg) = Some seg"
  by (simp add: path_item_id_def)

lemma read_item_route:
  assumes "meth req = GET" and "path req = ''/items/'' @ seg"
    and "seg \<noteq> []" and "CHR ''/'' \<notin> set seg"
  shows "app to_int str_of req =
     (case both (item_id_param to_int seg) (q_param (query req)) of
        Inl es \<Rightarrow> ValidationFailure es
      | Inr nq \<Rightarrow> Ok (read_item (fst nq) (snd nq)))"
proof -
  have seg: "path_item_id (path req) = Some seg"
    using path_item_id_items [OF assms(3,4)] by (simp only: assms(2))
  have root: "path req \<noteq> ''/''"
    using assms(2) by simp
  show ?thesis
    by (simp add: app_def route_read_root_def route_read_item_def assms(1) seg root)
qed

lemma create_item_route:
  assumes "meth req = POST" and "path req = ''/items/''"
  shows "app to_int str_of req =
     (case Item_of_body str_of (body req) of
        Inl es \<Rightarrow> ValidationFailure es
      | Inr item \<Rightarrow> Ok (create_item item))"
  using assms by (simp add: app_def route_read_root_def route_read_item_def route_create_item_def)

section \<open>What the validators refuse\<close>






section \<open>The items service: what each route answers\<close>

text \<open>
  C7. A GET request to \<^verbatim>\<open>/\<close> is answered with exactly \<^verbatim>\<open>{"Hello": "World"}\<close>, whatever
  its query string, headers and body are and whatever the framework's readers of
  integers and strings are.
\<close>

theorem read_root_fixed:
  assumes "meth req = GET" and "path req = ''/''"
  shows "app to_int str_of req = Ok (JObject [(''Hello'', JString ''World'')])"
  using assms by (simp add: app_def route_read_root_def read_root_def)

theorem read_root_fixed_witness:
  "app decimal_int no_conversion
     \<lparr>meth = GET, path = ''/'', query = [(''q'', ''x'')],
      headers = [(''accept'', ''text/html'')], body = Some (JInt 5)\<rparr>
   = Ok (JObject [(''Hello'', JString ''World'')])"
  by (rule read_root_fixed) simp_all

text \<open>
  C1. A GET request to \<^verbatim>\<open>/items/{seg}\<close> whose segment the framework reads as the integer
  \<open>n\<close> and whose query string has no \<^verbatim>\<open>q\<close> is answered with
  \<^verbatim>\<open>{"item_id": n, "q": null}\<close>: the key \<^verbatim>\<open>q\<close> is there and bound to null.
\<close>

theorem read_item_q_omitted:
  assumes "meth req = GET" and "path req = ''/items/'' @ seg"
    and "seg \<noteq> []" and "CHR ''/'' \<notin> set seg"
    and "to_int seg = Some n"
    and "dict_get (query req) ''q'' = None"
  shows "app to_int str_of req = Ok (JObject [(''item_id'', JInt n), (''q'', JNull)])"
  using assms(5,6) read_item_route [OF assms(1-4), of to_int str_of]
  by (simp add: both_def item_id_param_def q_param_def read_item_def)

text \<open>
  Run with the reader of decimal text: the request for the decimal text of \<open>n\<close> is
  answered with \<open>n\<close>.
\<close>

theorem read_item_q_omitted_witness:
  "\<forall>n. app decimal_int no_conversion
          \<lparr>meth = GET, path = ''/items/'' @ str_int n, query = [], headers = [], body = None\<rparr>
        = Ok (JObject [(''item_id'', JInt n), (''q'', JNull)])"
proof
  fix n
  show "app decimal_int no_conversion
          \<lparr>meth = GET, path = ''/items/'' @ str_int n, query = [], headers = [], body = None\<rparr>
        = Ok (JObject [(''item_id'', JInt n), (''q'', JNull)])"
    by (rule read_item_q_omitted [where seg = "str_int n"])
       (simp_all add: str_int_not_Nil str_int_no_slash decimal_int_str_int dict_get_def)
qed

text \<open>
  C2. A GET request to \<^verbatim>\<open>/items/{seg}?q={s}\<close> whose segment is read as the integer \<open>n\<close>
  and whose \<^verbatim>\<open>q\<close> has at least three characters is answered with
  \<^verbatim>\<open>{"item_id": n, "q": s}\<close>: both inputs come back unchanged.
\<close>

theorem read_item_echoes_q:
  assumes "meth req = GET" and "path req = ''/items/'' @ seg"
    and "seg \<noteq> []" and "CHR ''/'' \<notin> set seg"
    and "to_int seg = Some n"
    and "dict_get (query req) ''q'' = Some s" and "3 \<le> length s"
  shows "app to_int str_of req = Ok (JObject [(''item_id'', JInt n), (''q'', JString s)])"
  using assms(5-7) read_item_route [OF assms(1-4), of to_int str_of]
  by (simp add: both_def item_id_param_def q_param_def read_item_def)

theorem read_item_echoes_q_witness:
  "\<forall>n a b c s.
     app decimal_int no_conversion
       \<lparr>meth = GET, path = ''/items/'' @ str_int n, query = [(''q'', a # b # c # s)],
        headers = [], body = None\<rparr>
     = Ok (JObject [(''item_id'', JInt n), (''q'', JString (a # b # c # s))])"
proof (intro allI)
  fix n a b c s
  show "app decimal_int no_conversion
       \<lparr>meth = GET, path = ''/items/'' @ str_int n, query = [(''q'', a # b # c # s)],
        headers = [], body = None\<rparr>
     = Ok (JObject [(''item_id'', JInt n), (''q'', JString (a # b # c # s))])"
    by (rule read_item_echoes_q [where seg = "str_int n"])
       (simp_all add: str_int_not_Nil str_int_no_slash decimal_int_str_int dict_get_def)
qed

text \<open>
  C3. A GET request to \<^verbatim>\<open>/items/{seg}?q={s}\<close> whose \<^verbatim>\<open>q\<close> has fewer than three
  characters, the empty string included, is refused with a validation failure that
  reports \<^verbatim>\<open>q\<close> as too short (after the error of the segment, if that is no integer);
  the reply is no 200 response, so \<^verbatim>\<open>read_item\<close> has not run.
\<close>

theorem read_item_short_q_rejected:
  assumes "meth req = GET" and "path req = ''/items/'' @ seg"
    and "seg \<noteq> []" and "CHR ''/'' \<notin> set seg"
    and "dict_get (query req) ''q'' = Some s" and "length s < 3"
  shows "app to_int str_of req =
           ValidationFailure
             ((case to_int seg of None \<Rightarrow> [WrongType [''path'', ''item_id'']] | Some n \<Rightarrow> [])
              @ [TooShort [''query'', ''q'']])
         \<and> (\<forall>v. app to_int str_of req \<noteq> Ok v)"
  using assms(5,6) read_item_route [OF assms(1-4), of to_int str_of]
  by (simp add: both_def item_id_param_def q_param_def split: option.split)

theorem read_item_short_q_rejected_witness:
  "app decimal_int no_conversion
     \<lparr>meth = GET, path = ''/items/5'', query = [(''q'', [])], headers = [], body = None\<rparr>
   = ValidationFailure [TooShort [''query'', ''q'']]
   \<and> app decimal_int no_conversion
     \<lparr>meth = GET, path = ''/items/5'', query = [(''q'', ''ab'')], headers = [], body = None\<rparr>
   = ValidationFailure [TooShort [''query'', ''q'']]"
  using read_item_short_q_rejected
          [where req = "\<lparr>meth = GET, path = ''/items/5'', query = [(''q'', [])],
                          headers = [], body = None\<rparr>"
             and seg = "''5''" and s = "[]" and to_int = decimal_int
             and str_of = no_conversion]
        read_item_short_q_rejected
          [where req = "\<lparr>meth = GET, path = ''/items/5'', query = [(''q'', ''ab'')],
                          headers = [], body = None\<rparr>"
             and seg = "''5''" and s = "''ab''" and to_int = decimal_int
             and str_of = no_conversion]
  by (simp add: decimal_int_def is_digit_def dict_get_def)

text \<open>
  C6. A GET request to \<^verbatim>\<open>/items/{seg}\<close> whose segment the framework does not read as an
  integer is refused with a validation failure that reports the path parameter first;
  the reply is no 200 response, so \<^verbatim>\<open>read_item\<close> has not run.
\<close>

theorem read_item_bad_id_rejected:
  assumes "meth req = GET" and "path req = ''/items/'' @ seg"
    and "seg \<noteq> []" and "CHR ''/'' \<notin> set seg"
    and "to_int seg = None"
  shows "(\<exists>es. app to_int str_of req = ValidationFailure (WrongType [''path'', ''item_id''] # es))
         \<and> (\<forall>v. app to_int str_of req \<noteq> Ok v)"
  using assms(5) read_item_route [OF assms(1-4), of to_int str_of]
  by (cases "q_param (query req)") (simp_all add: both_def item_id_param_def)

theorem read_item_bad_id_rejected_witness:
  "decimal_int ''abc'' = None \<and>
   (\<exists>es. app decimal_int no_conversion
            \<lparr>meth = GET, path = ''/items/abc'', query = [], headers = [], body = None\<rparr>
          = ValidationFailure (WrongType [''path'', ''item_id''] # es))"
proof -
  have d: "decimal_int ''abc'' = None"
    by (simp add: decimal_int_def is_digit_def)
  show ?thesis
    using d read_item_bad_id_rejected
            [where req = "\<lparr>meth = GET, path = ''/items/abc'', query = [],
                            headers = [], body = None\<rparr>"
               and seg = "''abc''" and to_int = decimal_int and str_of = no_conversion]
    by simp
qed

text \<open>
  C4. A POST to \<^verbatim>\<open>/items/\<close> whose body is an object that binds \<^verbatim>\<open>name\<close> and
  \<^verbatim>\<open>description\<close> to strings is answered with exactly those two pairs; the body
  \<^verbatim>\<open>{"name": "pen", "description": "blue pen"}\<close> comes back as it is.
\<close>

theorem create_item_echoes:
  assumes "meth req = POST" and "path req = ''/items/''"
    and "body req = Some (JObject obj)"
    and "dict_get obj ''name'' = Some (JString a)"
    and "dict_get obj ''description'' = Some (JString b)"
  shows "app to_int str_of req =
           Ok (JObject [(''name'', JString a), (''description'', JString b)])"
  using assms(3-5) create_item_route [OF assms(1,2), of to_int str_of]
  by (simp add: Item_of_body_def both_def str_field_def field_str_def create_item_def)

theorem create_item_echoes_witness:
  "app decimal_int no_conversion
     \<lparr>meth = POST, path = ''/items/'', query = [], headers = [],
      body = Some (JObject [(''name'', JString ''pen''), (''description'', JString ''blue pen'')])\<rparr>
   = Ok (JObject [(''name'', JString ''pen''), (''description'', JString ''blue pen'')])"
  by (rule create_item_echoes
        [where obj = "[(''name'', JString ''pen''), (''description'', JString ''blue pen'')]"])
     (simp_all add: dict_get_def)



text \<open>
  Why the library's choice is left open: with a library that turns numbers into text,
  the same body with the number 5 for \<^verbatim>\<open>name\<close> is accepted and answered with the text
  \<^verbatim>\<open>"5"\<close>.
\<close>

lemma create_item_number_converted:
  "app decimal_int scalar_text
     \<lparr>meth = POST, path = ''/items/'', query = [], headers = [],
      body = Some (JObject [(''name'', JInt 5), (''description'', JString ''blue pen'')])\<rparr>
   = Ok (JObject [(''name'', JString ''5''), (''description'', JString ''blue pen'')])"
proof -
  have "str_int 5 = ''5''"
    by code_simp
  then show ?thesis
    by (simp add: app_def route_read_root_def route_read_item_def route_create_item_def
        Item_of_body_def both_def str_field_def field_str_def scalar_text_def dict_get_def
        create_item_def)
qed

text \<open>
  C10. A POST to \<^verbatim>\<open>/items/\<close> whose body binds \<^verbatim>\<open>name\<close> and \<^verbatim>\<open>description\<close> to
  strings and holds any other keys besides succeeds; the reply has exactly the two
  keys \<^verbatim>\<open>name\<close> and \<^verbatim>\<open>description\<close> with the submitted values, and it is the reply
  that the body of the two fields alone gets: the other keys are dropped.
\<close>

theorem create_item_drops_extra_keys:
  assumes "meth req = POST" and "path req = ''/items/''"
    and "body req = Some (JObject obj)"
    and "dict_get obj ''name'' = Some (JString a)"
    and "dict_get obj ''description'' = Some (JString b)"
  shows "app to_int str_of req =
           Ok (JObject [(''name'', JString a), (''description'', JString b)])
         \<and> app to_int str_of req =
             app to_int str_of
               (req\<lparr>body :=
                  Some (JObject [(''name'', JString a), (''description'', JString b)])\<rparr>)"
proof -
  have "Item_of_body str_of (body req) = Inr \<lparr>name = a, description = b\<rparr>"
    using assms(3-5) by (simp add: Item_of_body_def both_def str_field_def field_str_def)
  moreover have
    "Item_of_body str_of
       (Some (JObject [(''name'', JString a), (''description'', JString b)]))
       = Inr \<lparr>name = a, description = b\<rparr>"
    by (simp add: Item_of_body_def both_def str_field_def field_str_def dict_get_def)
  ultimately show ?thesis
    using assms(1,2)
    by (simp add: create_item_route create_item_def)
qed

theorem create_item_drops_extra_keys_witness:
  "app decimal_int no_conversion
     \<lparr>meth = POST, path = ''/items/'', query = [], headers = [],
      body = Some (JObject [(''id'', JInt 7), (''name'', JString ''pen''),
                            (''price'', JInt 3), (''description'', JString ''blue pen''),
                            (''tags'', JArray [JString ''x''])])\<rparr>
   = Ok (JObject [(''name'', JString ''pen''), (''description'', JString ''blue pen'')])"
  using create_item_drops_extra_keys
    [where req = "\<lparr>meth = POST, path = ''/items/'', query = [], headers = [],
      body = Some (JObject [(''id'', JInt 7), (''name'', JString ''pen''),
                            (''price'', JInt 3), (''description'', JString ''blue pen''),
                            (''tags'', JArray [JString ''x''])])\<rparr>"
       and a = "''pen''" and b = "''blue pen''" and to_int = decimal_int
       and str_of = no_conversion]
  by (simp add: dict_get_def)

section \<open>The handlers touch nothing but their arguments\<close>

lemma read_root_py_runs:
  "call_fun read_root_py args st =
     (if args = [] then Inr (py_of_json read_root) else Inl TypeError, st)"
  by (simp add: call_fun_def read_root_py_def read_root_def locals_of_def)

lemma read_item_py_value:
  "call_fun read_item_py [VInt n, opt_str q] st = (Inr (py_of_json (read_item n q)), st)"
  by (simp add: call_fun_def read_item_py_def read_item_def locals_of_def opt_str_def
      split: option.split)

lemma create_item_py_value:
  "call_fun create_item_py [item_object item] st = (Inr (py_of_json (create_item item)), st)"
  by (simp add: call_fun_def create_item_py_def create_item_def locals_of_def item_object_def
      get_attr_def dict_get_def)

lemma read_item_py_any:
  "call_fun read_item_py args st = (fst (call_fun read_item_py args st'), st)"
proof (cases "length args = 2")
  case True
  then obtain a b where "args = [a, b]"
    by (cases args; cases "tl args"; cases "tl (tl args)") auto
  then show ?thesis
    by (simp add: call_fun_def read_item_py_def locals_of_def)
next
  case False
  then show ?thesis
    by (simp add: call_fun_def read_item_py_def)
qed

lemma create_item_py_any:
  "call_fun create_item_py args st = (fst (call_fun create_item_py args st'), st)"
proof (cases "length args = 1")
  case True
  then obtain a where "args = [a]"
    by (cases args) auto
  then show ?thesis
    by (simp add: call_fun_def create_item_py_def locals_of_def split: sum.split)
next
  case False
  then show ?thesis
    by (simp add: call_fun_def create_item_py_def)
qed

text \<open>
  C8. Each of the three handlers, run as it is written, is deterministic and free of
  side effects. Called from any state of the process \<open>st\<close> (any global names, any
  calls made so far), a handler answers what it answers from any other state \<open>st'\<close>,
  for any arguments at all, and the state after the call is \<open>st\<close> itself: no global
  is bound and no outside code is called. On the arguments the framework passes, the
  answer is the dict that the route returns.
\<close>

theorem handlers_pure:
  "call_fun read_root_py args st = (fst (call_fun read_root_py args st'), st)
   \<and> call_fun read_item_py args st = (fst (call_fun read_item_py args st'), st)
   \<and> call_fun create_item_py args st = (fst (call_fun create_item_py args st'), st)
   \<and> call_fun read_root_py [] st = (Inr (py_of_json read_root), st)
   \<and> call_fun read_item_py [VInt n, opt_str q] st = (Inr (py_of_json (read_item n q)), st)
   \<and> call_fun create_item_py [item_object item] st
       = (Inr (py_of_json (create_item item)), st)"
  using read_item_py_any [of args st st'] create_item_py_any [of args st st']
  by (simp add: read_root_py_runs read_item_py_value create_item_py_value)

section \<open>The LMS application shell: what loading the module does\<close>

text \<open>
  C9. Loading \<^verbatim>\<open>main.py\<close> runs to its end and makes exactly four calls to outside code,
  in this order. The first is the one call of \<^verbatim>\<open>FastAPI\<close>, with the title
  \<^verbatim>\<open>Fast API LMS\<close>, the description \<^verbatim>\<open>LMS for managing students and courses.\<close> and the
  version \<^verbatim>\<open>0.0.1\<close>; its result (\<open>Result 0\<close>) is the one application object, bound to
  \<^verbatim>\<open>app\<close>. The other three are \<^verbatim>\<open>include_router\<close> on that object with
  \<^verbatim>\<open>users.router\<close>, \<^verbatim>\<open>courses.router\<close> and \<^verbatim>\<open>sections.router\<close> of the package \<^verbatim>\<open>api\<close>.
  Nothing else is called, and besides the imported names \<^verbatim>\<open>app\<close> is the only global
  the module binds.
\<close>

theorem main_py_builds_shell:
  "fst (run_module main_py) = Next
   \<and> calls (snd (run_module main_py)) =
       [Called (Imported ''fastapi'' ''FastAPI'') []
          [(''title'', VStr ''Fast API LMS''),
           (''description'', VStr ''LMS for managing students and courses.''),
           (''version'', VStr ''0.0.1'')],
        Called (Member (Result 0) ''include_router'')
          [VRef (Member (Imported ''api'' ''users'') ''router'')] [],
        Called (Member (Result 0) ''include_router'')
          [VRef (Member (Imported ''api'' ''courses'') ''router'')] [],
        Called (Member (Result 0) ''include_router'')
          [VRef (Member (Imported ''api'' ''sections'') ''router'')] []]
   \<and> globals (snd (run_module main_py)) ''app'' = Some (VRef (Result 0))
   \<and> dom (globals (snd (run_module main_py))) =
       {''app'', ''sections'', ''courses'', ''users'', ''BaseModel'', ''Query'', ''Path'',
        ''FastAPI'', ''List'', ''Optional''}"
  by (simp add: run_module_def main_py_def locals_of_def bind_name_def get_attr_def
      call_value_def)

end
